theory Spec2Isabelle
  imports Complex_Main
begin

section \<open>JavaScript values\<close>

text \<open>
  The handlers work on loosely typed payloads (\<^verbatim>\<open>Record<string, unknown>\<close>), so the
  values of the runtime are modelled as a datatype. Numbers are the integers (ids,
  counts); a \<open>Date\<close> carries its time value in milliseconds, \<open>None\<close> for an invalid
  date. An object is the list of its own properties in insertion order.
\<close>

datatype jsval =
    JUndefined
  | JNull
  | JBool bool
  | JNum int
  | JStr string
  | JDate "int option"
  | JArr "jsval list"
  | JObj "(string \<times> jsval) list"

type_synonym js_object = "(string \<times> jsval) list"

text \<open>Truthiness, as \<^verbatim>\<open>!x\<close>, \<^verbatim>\<open>x || y\<close> and \<^verbatim>\<open>x ? a : b\<close> read it.\<close>

fun truthy :: "jsval \<Rightarrow> bool" where
  "truthy JUndefined = False"
| "truthy JNull = False"
| "truthy (JBool b) = b"
| "truthy (JNum n) = (n \<noteq> 0)"
| "truthy (JStr s) = (s \<noteq> [])"
| "truthy (JDate t) = True"
| "truthy (JArr xs) = True"
| "truthy (JObj ps) = True"

definition js_or :: "jsval \<Rightarrow> jsval \<Rightarrow> jsval" where
  "js_or a b = (if truthy a then a else b)"

text \<open>Reading a property: \<open>undefined\<close> when the object has none of that name.\<close>

definition get_prop :: "js_object \<Rightarrow> string \<Rightarrow> jsval" where
  "get_prop obj k = (case map_of obj k of None \<Rightarrow> JUndefined | Some v \<Rightarrow> v)"

text \<open>Assigning a property: in place when it exists, at the end otherwise.\<close>

fun set_prop :: "js_object \<Rightarrow> string \<Rightarrow> jsval \<Rightarrow> js_object" where
  "set_prop [] k v = [(k, v)]"
| "set_prop ((k', v') # ps) k v =
     (if k' = k then (k, v) # ps else (k', v') # set_prop ps k v)"

text \<open>
  An integer inside a template literal: its decimal digits, with a minus sign when
  negative. (The ids handled here are serial keys, far below the 21 digits where the
  runtime turns to exponent notation.)
\<close>

definition digit_char :: "nat \<Rightarrow> char" where
  "digit_char d = ''0123456789'' ! d"

fun show_nat :: "nat \<Rightarrow> string" where
  "show_nat n = (if n < 10 then [digit_char n] else show_nat (n div 10) @ [digit_char (n mod 10)])"

declare show_nat.simps [simp del]

definition show_int :: "int \<Rightarrow> string" where
  "show_int i = (if i < 0 then CHR ''-'' # show_nat (nat (- i)) else show_nat (nat i))"

section \<open>The record store\<close>

text \<open>The rows of the two tables, with the columns the data model of the handler names.\<close>

record AgentEvent =
  ev_id :: int
  ev_workspace_id :: int
  ev_agent :: string
  ev_action :: string
  ev_input :: js_object
  ev_status :: string
  ev_output :: "js_object option"

record Task =
  task_id :: int
  task_workspace_id :: int
  task_title :: string
  task_description :: "string option"
  task_priority :: string
  task_due_at :: "int option"
  task_status :: string

text \<open>
  The database: the ids of the workspace rows, the two tables in insertion order, and
  the next value of the serial key of the task table.
\<close>

record db =
  workspaces :: "int list"
  agent_events :: "AgentEvent list"
  tasks :: "Task list"
  tasks_id_seq :: int

text \<open>
  Modelled from the spec: \<open>findAgentEventById\<close> of the record store (the query builder
  and the table declarations are not part of the sources). The handler reads it as
  \<^verbatim>\<open>db.select().from(agentEventsTable).where(eq(agentEventsTable.id, id))\<close>, which
  yields the list of matching rows.
\<close>

definition select_agent_events :: "db \<Rightarrow> int \<Rightarrow> AgentEvent list" where
  "select_agent_events d i = filter (\<lambda>e. ev_id e = i) (agent_events d)"

text \<open>
  Modelled from the spec: \<open>updateAgentEvent(id, {status, output})\<close> of the record
  store, \<^verbatim>\<open>db.update(agentEventsTable).set({status, output}).where(eq(id)).returning()\<close>
  in the handler: every row with that id gets the two columns, and the updated rows
  are returned. The output is kept as the handler gives it (that the JSON column holds
  a \<open>Date\<close> as text is left out).
\<close>

definition set_status_output :: "int \<Rightarrow> string \<Rightarrow> js_object \<Rightarrow> AgentEvent \<Rightarrow> AgentEvent" where
  "set_status_output i st out e =
     (if ev_id e = i then e\<lparr>ev_status := st, ev_output := Some out\<rparr> else e)"

definition update_agent_events ::
  "db \<Rightarrow> int \<Rightarrow> string \<Rightarrow> js_object \<Rightarrow> AgentEvent list \<times> db" where
  "update_agent_events d i st out =
     (let rows = map (set_status_output i st out) (agent_events d)
      in (filter (\<lambda>e. ev_id e = i) rows, d\<lparr>agent_events := rows\<rparr>))"

text \<open>The values the handler hands to \<^verbatim>\<open>db.insert(tasksTable).values({...})\<close>.\<close>

record task_values =
  val_workspace_id :: jsval
  val_title :: jsval
  val_description :: jsval
  val_priority :: jsval
  val_due_at :: jsval
  val_status :: jsval

text \<open>
  Modelled from the spec: the columns of a Task (section 3 of the spec): a
  \<open>workspace_id\<close> that references a workspace, a \<open>title\<close>, an optional
  \<open>description\<close>, a \<open>priority\<close> that is one of \<open>low\<close>, \<open>med\<close>, \<open>high\<close>, an
  optional \<open>due_at\<close> timestamp and a \<open>status\<close>. Each function reads one value of
  the insert, and gives the message of the failure when the column cannot hold it.
\<close>

fun col_workspace_id :: "db \<Rightarrow> jsval \<Rightarrow> string + int" where
  "col_workspace_id d (JNum w) =
     (if w \<in> set (workspaces d) then Inr w
      else Inl ''insert on table tasks violates foreign key constraint tasks_workspace_id'')"
| "col_workspace_id d JUndefined = Inl ''null value in column workspace_id violates not-null constraint''"
| "col_workspace_id d JNull = Inl ''null value in column workspace_id violates not-null constraint''"
| "col_workspace_id d v = Inl ''invalid input syntax for type integer''"

fun col_title :: "jsval \<Rightarrow> string + string" where
  "col_title (JStr t) = Inr t"
| "col_title JUndefined = Inl ''null value in column title violates not-null constraint''"
| "col_title JNull = Inl ''null value in column title violates not-null constraint''"
| "col_title v = Inl ''invalid value for column title''"

fun col_description :: "jsval \<Rightarrow> string + string option" where
  "col_description (JStr s) = Inr (Some s)"
| "col_description JUndefined = Inr None"
| "col_description JNull = Inr None"
| "col_description v = Inl ''invalid value for column description''"

fun col_priority :: "jsval \<Rightarrow> string + string" where
  "col_priority (JStr p) =
     (if p = ''low'' \<or> p = ''med'' \<or> p = ''high'' then Inr p
      else Inl ''invalid input value for enum task_priority'')"
| "col_priority v = Inl ''invalid input value for enum task_priority''"

fun col_due_at :: "jsval \<Rightarrow> string + int option" where
  "col_due_at (JDate (Some t)) = Inr (Some t)"
| "col_due_at (JDate None) = Inl ''Invalid time value''"
| "col_due_at JUndefined = Inr None"
| "col_due_at JNull = Inr None"
| "col_due_at v = Inl ''invalid value for column due_at''"

fun col_status :: "jsval \<Rightarrow> string + string" where
  "col_status (JStr s) = Inr s"
| "col_status v = Inl ''invalid input value for enum task_status''"

text \<open>
  What a \<^verbatim>\<open>catch\<close> clause can receive: an \<open>Error\<close> with its message, or a value
  that is no \<open>Error\<close>. Line 96 of \<^verbatim>\<open>agent_confirm.ts\<close> reads the message of the
  first and has a fixed text for the second.
\<close>

datatype thrown = JsError string | NonError jsval

fun error_message :: "thrown \<Rightarrow> string" where
  "error_message (JsError m) = m"
| "error_message (NonError v) = ''Unknown error occurred''"

text \<open>
  Modelled from the spec: \<open>insertTask(fields) -> Task\<close> of the record store, which
  returns the full inserted row with its generated id, and fails (here: \<open>Inl\<close> with
  the error thrown, the database as it was) on a referential violation or on a value a
  column cannot hold.
\<close>

definition insert_task :: "db \<Rightarrow> task_values \<Rightarrow> (thrown + Task) \<times> db" where
  "insert_task d v =
     (case col_workspace_id d (val_workspace_id v) of
        Inl m \<Rightarrow> (Inl (JsError m), d)
      | Inr w \<Rightarrow>
     (case col_title (val_title v) of
        Inl m \<Rightarrow> (Inl (JsError m), d)
      | Inr t \<Rightarrow>
     (case col_description (val_description v) of
        Inl m \<Rightarrow> (Inl (JsError m), d)
      | Inr ds \<Rightarrow>
     (case col_priority (val_priority v) of
        Inl m \<Rightarrow> (Inl (JsError m), d)
      | Inr p \<Rightarrow>
     (case col_due_at (val_due_at v) of
        Inl m \<Rightarrow> (Inl (JsError m), d)
      | Inr du \<Rightarrow>
     (case col_status (val_status v) of
        Inl m \<Rightarrow> (Inl (JsError m), d)
      | Inr st \<Rightarrow>
          (let row = \<lparr>task_id = tasks_id_seq d, task_workspace_id = w, task_title = t,
                      task_description = ds, task_priority = p, task_due_at = du,
                      task_status = st\<rparr>
           in (Inr row,
               d\<lparr>tasks := tasks d @ [row], tasks_id_seq := tasks_id_seq d + 1\<rparr>))))))))"

section \<open>The confirmation handler\<close>

text \<open>
  What the handler takes from its surroundings: the reading of the clock
  (\<^verbatim>\<open>new Date()\<close>) and the \<open>Date\<close> constructor applied to a value
  (\<^verbatim>\<open>new Date(v)\<close>, \<open>None\<close> for an invalid date).
\<close>

record runtime =
  now :: int
  new_Date :: "jsval \<Rightarrow> int option"

record AgentConfirmInput =
  event_id :: int
  approved :: bool

text \<open>\<open>execution_result\<close> is an optional field: \<open>None\<close> is the field left out.\<close>

record AgentConfirmResponse =
  agent_event :: AgentEvent
  execution_result :: "js_object option"

text \<open>The object of lines 75 to 82 of \<^verbatim>\<open>agent_confirm.ts\<close>.\<close>

definition task_values_of :: "runtime \<Rightarrow> js_object \<Rightarrow> task_values" where
  "task_values_of rt taskInput =
     \<lparr>val_workspace_id = get_prop taskInput ''workspace_id'',
      val_title = get_prop taskInput ''title'',
      val_description = js_or (get_prop taskInput ''description'') JNull,
      val_priority = js_or (get_prop taskInput ''priority'') (JStr ''med''),
      val_due_at =
        (if truthy (get_prop taskInput ''due_at'')
         then JDate (new_Date rt (get_prop taskInput ''due_at'')) else JNull),
      val_status = JStr ''todo''\<rparr>"

text \<open>
  Lines 56 to 107: the dispatch on the action. The result is \<open>executionResult\<close>,
  \<open>outputData\<close> and the database after the action.
\<close>

definition execute_action ::
  "runtime \<Rightarrow> db \<Rightarrow> AgentEvent \<Rightarrow> (js_object \<times> js_object) \<times> db" where
  "execute_action rt d existingEvent =
     (let outputData = [(''approved'', JBool True), (''approved_at'', JDate (Some (now rt)))]
      in if ev_action existingEvent = ''create_task'' then
           (case insert_task d (task_values_of rt (ev_input existingEvent)) of
              (Inr newTask, d') \<Rightarrow>
                (([(''success'', JBool True),
                   (''created_task_id'', JNum (task_id newTask)),
                   (''message'', JStr ''Task created successfully'')],
                  set_prop (set_prop outputData ''executed_action'' (JStr ''task_created''))
                    ''task_id'' (JNum (task_id newTask))),
                 d')
            | (Inl error, d') \<Rightarrow>
                (let executionResult =
                       [(''success'', JBool False), (''error'', JStr (error_message error))]
                 in ((executionResult,
                      set_prop outputData ''execution_error'' (get_prop executionResult ''error'')),
                     d')))
         else
           (([(''success'', JBool True),
              (''message'', JStr (''Action '' @ ev_action existingEvent @ '' executed successfully''))],
             set_prop outputData ''executed_action'' (JStr (ev_action existingEvent))),
            d))"

text \<open>
  \<^verbatim>\<open>agentConfirm\<close>. A thrown error is \<open>Inl\<close> with its message; the second component
  is the database the call leaves behind.
\<close>

definition agentConfirm ::
  "runtime \<Rightarrow> db \<Rightarrow> AgentConfirmInput \<Rightarrow> (string + AgentConfirmResponse) \<times> db" where
  "agentConfirm rt d input =
     (case select_agent_events d (event_id input) of
        [] \<Rightarrow> (Inl (''Agent event with id '' @ show_int (event_id input) @ '' not found''), d)
      | existingEvent # _ \<Rightarrow>
          if ev_status existingEvent \<noteq> ''awaiting_confirmation'' then
            (Inl (''Agent event '' @ show_int (event_id input)
                  @ '' is not awaiting confirmation (current status: ''
                  @ ev_status existingEvent @ '')''), d)
          else if \<not> approved input then
            (case update_agent_events d (event_id input) ''error''
                    [(''rejected'', JBool True),
                     (''rejected_at'', JDate (Some (now rt))),
                     (''reason'', JStr ''User rejected proposal'')] of
               ([], d') \<Rightarrow> (Inl ''Cannot read properties of undefined (reading 'input')'', d')
             | (updated # _, d') \<Rightarrow>
                 (Inr \<lparr>agent_event = updated, execution_result = None\<rparr>, d'))
          else
            (case execute_action rt d existingEvent of
               ((executionResult, outputData), d1) \<Rightarrow>
                 (case update_agent_events d1 (event_id input)
                         (if truthy (get_prop executionResult ''success'')
                          then ''executed'' else ''error'')
                         outputData of
                    ([], d2) \<Rightarrow> (Inl ''Cannot read properties of undefined (reading 'input')'', d2)
                  | (updated # _, d2) \<Rightarrow>
                      (Inr \<lparr>agent_event = updated, execution_result = Some executionResult\<rparr>,
                       d2))))"

section \<open>The transcription handler\<close>

text \<open>
  The two fields are required by the input type; the handler still checks that they are
  there, so a field left out (\<open>undefined\<close>) is \<open>None\<close>.
\<close>

record TranscribeMeetingInput =
  audio_data :: "string option"
  workspace_id :: "int option"

record TranscriptResponse =
  partial_transcript :: string
  is_complete :: bool

definition is_base64_char :: "char \<Rightarrow> bool" where
  "is_base64_char c =
     (c \<in> set ''ABCDEFGHIJKLMNOPQRSTUVWXYZabcdefghijklmnopqrstuvwxyz0123456789+/'')"

text \<open>
  \<^verbatim>\<open>/^[A-Za-z0-9+/]+(=|==)?$/.test(s)\<close>: a non-empty run of characters of the class,
  then nothing, one or two \<open>=\<close>, up to the end of the string. The padding is outside
  the class, so the run the expression matches is the longest one.
\<close>

definition base64Regex_test :: "string \<Rightarrow> bool" where
  "base64Regex_test s =
     (let body = takeWhile is_base64_char s; rest = dropWhile is_base64_char s
      in body \<noteq> [] \<and> (rest = [] \<or> rest = ''='' \<or> rest = ''==''))"

text \<open>
  \<^verbatim>\<open>Buffer.from(s, 'base64').length\<close> for a string that passed the test (the handler
  reads nothing else of the buffer). The decoder of the runtime makes three bytes of
  four characters and one or two bytes of two or three trailing characters; a single
  trailing character and the padding add none.
\<close>

definition Buffer_from_base64_length :: "string \<Rightarrow> nat" where
  "Buffer_from_base64_length s = (3 * length (takeWhile is_base64_char s)) div 4"

text \<open>
  \<^verbatim>\<open>transcribeMeeting\<close>. The simulated delay of lines 43 and 44 has no part in the
  result. \<open>audioSizeKB\<close> is the quotient by 1024, which is exact.
\<close>

definition transcribeMeeting :: "TranscribeMeetingInput \<Rightarrow> string + TranscriptResponse" where
  "transcribeMeeting input =
     (case audio_data input of
        None \<Rightarrow> Inl ''Audio data is required''
      | Some audio \<Rightarrow>
          if audio = [] then Inl ''Audio data is required''
          else
            (case workspace_id input of
               None \<Rightarrow> Inl ''Valid workspace ID is required''
             | Some w \<Rightarrow>
                 if w = 0 \<or> w \<le> 0 then Inl ''Valid workspace ID is required''
                 else if \<not> base64Regex_test audio then Inl ''Invalid base64 audio data''
                 else
                   (let len = Buffer_from_base64_length audio in
                    if len < 10 then Inl ''Audio data too small''
                    else if len > 50 * 1024 * 1024 then Inl ''Audio data too large (max 50MB)''
                    else
                      (let audioSizeKB = (of_nat len :: rat) / 1024;
                           (transcriptText, isComplete) =
                             (if audioSizeKB < 1 then
                                (''Welcome to the meeting, today we will discuss...'', False)
                              else if audioSizeKB < 10 then
                                (''Welcome to the meeting, today we will discuss the quarterly results and upcoming project milestones. The team has been working hard on...'', False)
                              else
                                (''Welcome to the meeting, today we will discuss the quarterly results and upcoming project milestones. The team has been working hard on delivering key features and we need to review our progress. Let's start with the development update and then move to the marketing review.'', True));
                           contextualPrefix = ''[Workspace '' @ show_int w @ ''] ''
                       in Inr \<lparr>partial_transcript = contextualPrefix @ transcriptText,
                               is_complete = isComplete\<rparr>))))"

section \<open>What the specification expects\<close>

text \<open>
  The values a Task gets from the input of a \<open>create_task\<close> event, in the words of
  the specification: the description of the input, none when the input has none (or an
  empty one); its priority, \<open>med\<close> when it has none; its due date, when it has one.
\<close>

definition expected_description :: "js_object \<Rightarrow> string option" where
  "expected_description inp =
     (case get_prop inp ''description'' of
        JStr s \<Rightarrow> if s = [] then None else Some s
      | _ \<Rightarrow> None)"

definition expected_priority :: "js_object \<Rightarrow> string" where
  "expected_priority inp =
     (case get_prop inp ''priority'' of
        JStr p \<Rightarrow> if p = [] then ''med'' else p
      | _ \<Rightarrow> ''med'')"

definition expected_due_at :: "runtime \<Rightarrow> js_object \<Rightarrow> int option" where
  "expected_due_at rt inp =
     (if truthy (get_prop inp ''due_at'') then new_Date rt (get_prop inp ''due_at'') else None)"

fun is_string :: "jsval \<Rightarrow> bool" where
  "is_string (JStr s) = True"
| "is_string v = False"

definition is_priority :: "jsval \<Rightarrow> bool" where
  "is_priority v = (v = JStr ''low'' \<or> v = JStr ''med'' \<or> v = JStr ''high'')"

text \<open>
  The optional fields of a task input are valid: a description, when given, is a
  string; a priority, when given, is one of the three; a due date, when given, is one
  the \<open>Date\<close> constructor can read. (Given: not \<open>undefined\<close>, \<open>null\<close>, or
  another value the handler takes for none.)
\<close>

definition valid_description :: "js_object \<Rightarrow> bool" where
  "valid_description inp =
     (if truthy (get_prop inp ''description'') then is_string (get_prop inp ''description'')
      else True)"

definition valid_priority :: "js_object \<Rightarrow> bool" where
  "valid_priority inp =
     (if truthy (get_prop inp ''priority'') then is_priority (get_prop inp ''priority'')
      else True)"

definition valid_due_at :: "runtime \<Rightarrow> js_object \<Rightarrow> bool" where
  "valid_due_at rt inp =
     (if truthy (get_prop inp ''due_at'') then new_Date rt (get_prop inp ''due_at'') \<noteq> None
      else True)"

definition valid_optional_fields :: "runtime \<Rightarrow> js_object \<Rightarrow> bool" where
  "valid_optional_fields rt inp =
     (valid_description inp \<and> valid_priority inp \<and> valid_due_at rt inp)"

text \<open>The three size buckets of the transcription stub, and the text of each.\<close>

datatype size_bucket = Below_1KB | From_1KB_to_10KB | From_10KB

definition bucket_of :: "nat \<Rightarrow> size_bucket" where
  "bucket_of n = (if n < 1024 then Below_1KB else if n < 10 * 1024 then From_1KB_to_10KB else From_10KB)"

fun bucket_text :: "size_bucket \<Rightarrow> string" where
  "bucket_text Below_1KB = ''Welcome to the meeting, today we will discuss...''"
| "bucket_text From_1KB_to_10KB = ''Welcome to the meeting, today we will discuss the quarterly results and upcoming project milestones. The team has been working hard on...''"
| "bucket_text From_10KB = ''Welcome to the meeting, today we will discuss the quarterly results and upcoming project milestones. The team has been working hard on delivering key features and we need to review our progress. Let's start with the development update and then move to the marketing review.''"

definition decoded_length :: "TranscribeMeetingInput \<Rightarrow> nat" where
  "decoded_length input =
     (case audio_data input of None \<Rightarrow> 0 | Some audio \<Rightarrow> Buffer_from_base64_length audio)"

text \<open>
  The inputs the transcription stub refuses, as the specification lists them: no audio
  data or an empty one, audio data that is not base64, no workspace id or one that is
  not positive, and decoded audio of fewer than 10 bytes or of more than 50 MB.
\<close>

definition invalid_input :: "TranscribeMeetingInput \<Rightarrow> bool" where
  "invalid_input input =
     ((case audio_data input of
         None \<Rightarrow> True
       | Some audio \<Rightarrow> audio = [] \<or> \<not> base64Regex_test audio)
      \<or> (case workspace_id input of None \<Rightarrow> True | Some w \<Rightarrow> w \<le> 0)
      \<or> decoded_length input < 10
      \<or> decoded_length input > 50 * 1024 * 1024)"

section \<open>Example data\<close>

text \<open>
  A database in the shape of the test suite: one workspace, and events that await
  confirmation or are already executed.
\<close>

definition example_runtime :: runtime where
  "example_runtime =
     \<lparr>now = 1700000000000,
      new_Date = (\<lambda>v. case v of JNum n \<Rightarrow> Some n | _ \<Rightarrow> None)\<rparr>"

definition example_event :: "int \<Rightarrow> string \<Rightarrow> js_object \<Rightarrow> string \<Rightarrow> AgentEvent" where
  "example_event i action inp st =
     \<lparr>ev_id = i, ev_workspace_id = 1, ev_agent = ''task_agent'', ev_action = action,
      ev_input = inp, ev_status = st, ev_output = None\<rparr>"

definition high_priority_event :: AgentEvent where
  "high_priority_event =
     example_event 1 ''create_task''
       [(''workspace_id'', JNum 1), (''title'', JStr ''Agent Created Task''),
        (''description'', JStr ''Task created by agent''), (''priority'', JStr ''high'')]
       ''awaiting_confirmation''"

definition meeting_event :: AgentEvent where
  "meeting_event =
     example_event 2 ''schedule_meeting''
       [(''title'', JStr ''Team Meeting''), (''duration'', JNum 60)]
       ''awaiting_confirmation''"

definition executed_event :: AgentEvent where
  "executed_event = example_event 3 ''create_task'' [(''title'', JStr ''Test Task'')] ''executed''"

definition foreign_key_event :: AgentEvent where
  "foreign_key_event =
     example_event 4 ''create_task''
       [(''title'', JStr ''Invalid Task''), (''workspace_id'', JNum 99999)]
       ''awaiting_confirmation''"

definition urgent_event :: AgentEvent where
  "urgent_event =
     example_event 5 ''create_task''
       [(''workspace_id'', JNum 1), (''title'', JStr ''Urgent Task''),
        (''priority'', JStr ''urgent'')]
       ''awaiting_confirmation''"

definition plain_event :: AgentEvent where
  "plain_event =
     example_event 6 ''create_task''
       [(''workspace_id'', JNum 1), (''title'', JStr ''Plain Task'')]
       ''awaiting_confirmation''"

definition example_db :: db where
  "example_db =
     \<lparr>workspaces = [1],
      agent_events =
        [high_priority_event, meeting_event, executed_event, foreign_key_event,
         urgent_event, plain_event],
      tasks = [],
      tasks_id_seq = 1\<rparr>"

text \<open>The output of the meeting event once it is approved, and the database then.\<close>

definition meeting_output :: js_object where
  "meeting_output =
     [(''approved'', JBool True), (''approved_at'', JDate (Some 1700000000000)),
      (''executed_action'', JStr ''schedule_meeting'')]"

definition approved_db :: db where
  "approved_db =
     example_db\<lparr>agent_events :=
       [high_priority_event,
        meeting_event\<lparr>ev_status := ''executed'', ev_output := Some meeting_output\<rparr>,
        executed_event, foreign_key_event, urgent_event, plain_event]\<rparr>"

text \<open>Two recordings of twelve bytes each, for workspace 7.\<close>

definition example_audio_1 :: TranscribeMeetingInput where
  "example_audio_1 = \<lparr>audio_data = Some ''QUJDREVGR0hJSktM'', workspace_id = Some 7\<rparr>"

definition example_audio_2 :: TranscribeMeetingInput where
  "example_audio_2 = \<lparr>audio_data = Some ''TU5PUFFSU1RVVldY'', workspace_id = Some 7\<rparr>"


section \<open>Facts about the record store\<close>

lemma filter_map_set_status_output:
  "filter (\<lambda>e. ev_id e = j) (map (set_status_output i st out) xs)
     = map (set_status_output i st out) (filter (\<lambda>e. ev_id e = j) xs)"
  by (induction xs) (auto simp: set_status_output_def)

lemma select_ev_id:
  assumes "select_agent_events d i = e # es"
  shows "ev_id e = i"
proof -
  have "e \<in> set (select_agent_events d i)" using assms by simp
  then show ?thesis by (simp add: select_agent_events_def)
qed

lemma update_agent_events_found:
  assumes "select_agent_events d i = e # es"
  shows "update_agent_events d i st out =
           (e\<lparr>ev_status := st, ev_output := Some out\<rparr> # map (set_status_output i st out) es,
            d\<lparr>agent_events := map (set_status_output i st out) (agent_events d)\<rparr>)"
proof -
  have "ev_id e = i" using assms by (rule select_ev_id)
  then have "set_status_output i st out e = e\<lparr>ev_status := st, ev_output := Some out\<rparr>"
    by (simp add: set_status_output_def)
  with assms show ?thesis
    by (simp add: update_agent_events_def Let_def filter_map_set_status_output
        select_agent_events_def)
qed

lemma insert_task_agent_events:
  "agent_events (snd (insert_task d v)) = agent_events d"
  by (simp add: insert_task_def Let_def split: sum.splits)

lemma insert_task_failure:
  "fst (insert_task d v) = Inl m \<Longrightarrow> snd (insert_task d v) = d"
  by (simp add: insert_task_def Let_def split: sum.splits)

text \<open>The three optional columns, for values that are valid or left out.\<close>

lemma col_description_valid:
  assumes "if truthy v then is_string v else True"
  shows "col_description (js_or v JNull)
           = Inr (case v of JStr s \<Rightarrow> if s = [] then None else Some s | _ \<Rightarrow> None)"
  using assms by (cases v) (auto simp: js_or_def split: if_splits)

lemma col_priority_valid:
  assumes "if truthy v then is_priority v else True"
  shows "col_priority (js_or v (JStr ''med''))
           = Inr (case v of JStr p \<Rightarrow> if p = [] then ''med'' else p | _ \<Rightarrow> ''med'')"
  using assms by (cases v) (auto simp: js_or_def is_priority_def split: if_splits)

lemma col_priority_invalid:
  assumes "truthy v" and "\<not> is_priority v"
  shows "col_priority (js_or v (JStr ''med'')) = Inl ''invalid input value for enum task_priority''"
  using assms by (cases v) (auto simp: js_or_def is_priority_def)

lemma col_due_at_valid:
  assumes "if truthy v then new_Date rt v \<noteq> None else True"
  shows "col_due_at (if truthy v then JDate (new_Date rt v) else JNull)
           = Inr (if truthy v then new_Date rt v else None)"
  using assms by (cases "truthy v") auto

lemma insert_task_valid:
  assumes "get_prop inp ''workspace_id'' = JNum w"
    and "w \<in> set (workspaces d)"
    and "get_prop inp ''title'' = JStr title"
    and "valid_description inp" and "valid_priority inp" and "valid_due_at rt inp"
  shows "insert_task d (task_values_of rt inp) =
           (Inr \<lparr>task_id = tasks_id_seq d, task_workspace_id = w, task_title = title,
                 task_description = expected_description inp,
                 task_priority = expected_priority inp,
                 task_due_at = expected_due_at rt inp, task_status = ''todo''\<rparr>,
            d\<lparr>tasks := tasks d @
                 [\<lparr>task_id = tasks_id_seq d, task_workspace_id = w, task_title = title,
                   task_description = expected_description inp,
                   task_priority = expected_priority inp,
                   task_due_at = expected_due_at rt inp, task_status = ''todo''\<rparr>],
              tasks_id_seq := tasks_id_seq d + 1\<rparr>)"
proof -
  have ds: "col_description (val_description (task_values_of rt inp)) = Inr (expected_description inp)"
    using assms(4) col_description_valid [of "get_prop inp ''description''"]
    by (simp add: valid_description_def task_values_of_def expected_description_def)
  have p: "col_priority (val_priority (task_values_of rt inp)) = Inr (expected_priority inp)"
    using assms(5) col_priority_valid [of "get_prop inp ''priority''"]
    by (simp add: valid_priority_def task_values_of_def expected_priority_def)
  have u: "col_due_at (val_due_at (task_values_of rt inp)) = Inr (expected_due_at rt inp)"
    using assms(6) col_due_at_valid [of "get_prop inp ''due_at''" rt]
    by (simp add: valid_due_at_def task_values_of_def expected_due_at_def)
  have w: "col_workspace_id d (val_workspace_id (task_values_of rt inp)) = Inr w"
    using assms(1,2) by (simp add: task_values_of_def)
  have t: "col_title (val_title (task_values_of rt inp)) = Inr title"
    using assms(3) by (simp add: task_values_of_def)
  have s: "col_status (val_status (task_values_of rt inp)) = Inr ''todo''"
    by (simp add: task_values_of_def)
  show ?thesis
    by (simp add: insert_task_def ds p u w t s Let_def)
qed

lemma insert_task_invalid_priority:
  assumes "get_prop inp ''workspace_id'' = JNum w"
    and "w \<in> set (workspaces d)"
    and "get_prop inp ''title'' = JStr title"
    and "valid_description inp"
    and "truthy (get_prop inp ''priority'')"
    and "\<not> is_priority (get_prop inp ''priority'')"
  shows "insert_task d (task_values_of rt inp) =
           (Inl (JsError ''invalid input value for enum task_priority''), d)"
proof -
  have ds: "col_description (val_description (task_values_of rt inp)) = Inr (expected_description inp)"
    using assms(4) col_description_valid [of "get_prop inp ''description''"]
    by (simp add: valid_description_def task_values_of_def expected_description_def)
  have p: "col_priority (val_priority (task_values_of rt inp))
             = Inl ''invalid input value for enum task_priority''"
    using col_priority_invalid [OF assms(5,6)] by (simp add: task_values_of_def)
  have w: "col_workspace_id d (val_workspace_id (task_values_of rt inp)) = Inr w"
    using assms(1,2) by (simp add: task_values_of_def)
  have t: "col_title (val_title (task_values_of rt inp)) = Inr title"
    using assms(3) by (simp add: task_values_of_def)
  show ?thesis
    by (simp add: insert_task_def ds p w t)
qed

section \<open>The approved action, step by step\<close>

lemma execute_action_agent_events:
  "agent_events (snd (execute_action rt d e)) = agent_events d"
proof (cases "insert_task d (task_values_of rt (ev_input e))")
  case (Pair x d1)
  then have "agent_events d1 = agent_events d"
    using insert_task_agent_events [of d "task_values_of rt (ev_input e)"] by simp
  with Pair show ?thesis
    by (cases x) (simp_all add: execute_action_def Let_def)
qed

text \<open>An approved \<open>create_task\<close> whose insert went through.\<close>

lemma approved_insert_success:
  assumes sel: "select_agent_events d (event_id input) = e # es"
    and "ev_status e = ''awaiting_confirmation''"
    and "ev_action e = ''create_task''"
    and "approved input"
    and ins: "insert_task d (task_values_of rt (ev_input e)) = (Inr row, d1)"
  shows "agentConfirm rt d input =
           (Inr \<lparr>agent_event =
                   e\<lparr>ev_status := ''executed'',
                     ev_output := Some [(''approved'', JBool True),
                                        (''approved_at'', JDate (Some (now rt))),
                                        (''executed_action'', JStr ''task_created''),
                                        (''task_id'', JNum (task_id row))]\<rparr>,
                 execution_result =
                   Some [(''success'', JBool True),
                         (''created_task_id'', JNum (task_id row)),
                         (''message'', JStr ''Task created successfully'')]\<rparr>,
            d1\<lparr>agent_events :=
                 map (set_status_output (event_id input) ''executed''
                        [(''approved'', JBool True),
                         (''approved_at'', JDate (Some (now rt))),
                         (''executed_action'', JStr ''task_created''),
                         (''task_id'', JNum (task_id row))])
                   (agent_events d1)\<rparr>)"
proof -
  have "agent_events d1 = agent_events d"
    using insert_task_agent_events [of d "task_values_of rt (ev_input e)"] ins by simp
  then have sel1: "select_agent_events d1 (event_id input) = e # es"
    using sel by (simp add: select_agent_events_def)
  show ?thesis
    using assms(1-4)
    by (simp add: agentConfirm_def execute_action_def ins get_prop_def
        update_agent_events_found [OF sel1])
qed

text \<open>An approved \<open>create_task\<close> whose insert failed.\<close>

lemma approved_insert_failure:
  assumes sel: "select_agent_events d (event_id input) = e # es"
    and "ev_status e = ''awaiting_confirmation''"
    and "ev_action e = ''create_task''"
    and "approved input"
    and ins: "insert_task d (task_values_of rt (ev_input e)) = (Inl error, d)"
    and msg: "message = error_message error"
  shows "agentConfirm rt d input =
           (Inr \<lparr>agent_event =
                   e\<lparr>ev_status := ''error'',
                     ev_output := Some [(''approved'', JBool True),
                                        (''approved_at'', JDate (Some (now rt))),
                                        (''execution_error'', JStr message)]\<rparr>,
                 execution_result =
                   Some [(''success'', JBool False), (''error'', JStr message)]\<rparr>,
            d\<lparr>agent_events :=
                map (set_status_output (event_id input) ''error''
                       [(''approved'', JBool True),
                        (''approved_at'', JDate (Some (now rt))),
                        (''execution_error'', JStr message)])
                  (agent_events d)\<rparr>)"
  using assms(1-4)
  by (simp add: agentConfirm_def execute_action_def ins msg get_prop_def
      update_agent_events_found [OF sel])

text \<open>
  What every completed call did: the event awaited confirmation, and the call wrote one
  terminal status to the rows of that id.
\<close>

lemma agentConfirm_completed:
  assumes "agentConfirm rt d input = (Inr r, d')"
  shows "\<exists>e es st out. select_agent_events d (event_id input) = e # es
           \<and> ev_status e = ''awaiting_confirmation''
           \<and> (st = ''executed'' \<or> st = ''error'')
           \<and> agent_event r = e\<lparr>ev_status := st, ev_output := Some out\<rparr>
           \<and> agent_events d' = map (set_status_output (event_id input) st out) (agent_events d)"
proof (cases "select_agent_events d (event_id input)")
  case Nil
  with assms show ?thesis by (simp add: agentConfirm_def)
next
  case (Cons e es)
  note sel = Cons
  show ?thesis
  proof (cases "ev_status e = ''awaiting_confirmation''")
    case False
    with assms sel show ?thesis by (simp add: agentConfirm_def)
  next
    case aw: True
    show ?thesis
    proof (cases "approved input")
      case False
      let ?out = "[(''rejected'', JBool True), (''rejected_at'', JDate (Some (now rt))),
                   (''reason'', JStr ''User rejected proposal'')]"
      have r: "agent_event r = e\<lparr>ev_status := ''error'', ev_output := Some ?out\<rparr>"
        and d': "agent_events d' = map (set_status_output (event_id input) ''error'' ?out) (agent_events d)"
        using assms sel aw False
        by (auto simp: agentConfirm_def update_agent_events_found [OF sel])
      with sel aw show ?thesis by blast
    next
      case True
      obtain res out d1 where ex: "execute_action rt d e = ((res, out), d1)"
        by (metis prod.exhaust)
      have ev: "agent_events d1 = agent_events d"
        using execute_action_agent_events [of rt d e] ex by simp
      then have sel1: "select_agent_events d1 (event_id input) = e # es"
        using sel by (simp add: select_agent_events_def)
      let ?st = "if truthy (get_prop res ''success'') then ''executed'' else ''error''"
      have r: "agent_event r = e\<lparr>ev_status := ?st, ev_output := Some out\<rparr>"
        and d': "agent_events d' = map (set_status_output (event_id input) ?st out) (agent_events d)"
        using assms sel aw True ex ev
        by (auto simp: agentConfirm_def update_agent_events_found [OF sel1] simp del: truthy.simps)
      have "?st = ''executed'' \<or> ?st = ''error''" by simp
      with sel aw r d' show ?thesis by blast
    qed
  qed
qed

text \<open>What a call of the transcription stub returns, when it returns.\<close>

lemma transcribeMeeting_returns:
  assumes "transcribeMeeting input = Inr r"
  shows "\<exists>w. workspace_id input = Some w
           \<and> r = \<lparr>partial_transcript =
                    ''[Workspace '' @ show_int w @ ''] ''
                      @ bucket_text (bucket_of (decoded_length input)),
                  is_complete = (10 * 1024 \<le> decoded_length input)\<rparr>"
proof -
  obtain audio where a: "audio_data input = Some audio"
    using assms by (cases "audio_data input") (simp_all add: transcribeMeeting_def)
  obtain w where w: "workspace_id input = Some w"
    using assms a by (cases "workspace_id input") (simp_all add: transcribeMeeting_def split: if_splits)
  have len: "decoded_length input = Buffer_from_base64_length audio"
    by (simp add: decoded_length_def a)
  consider "decoded_length input < 1024"
    | "1024 \<le> decoded_length input" "decoded_length input < 10240"
    | "10240 \<le> decoded_length input"
    by linarith
  then have "r = \<lparr>partial_transcript =
                    ''[Workspace '' @ show_int w @ ''] ''
                      @ bucket_text (bucket_of (decoded_length input)),
                  is_complete = (10 * 1024 \<le> decoded_length input)\<rparr>"
  proof cases
    case 1
    with assms a w len show ?thesis
      by (simp add: transcribeMeeting_def Let_def bucket_of_def field_simps split: if_splits)
  next
    case 2
    with assms a w len show ?thesis
      by (simp add: transcribeMeeting_def Let_def bucket_of_def field_simps split: if_splits)
  next
    case 3
    with assms a w len show ?thesis
      by (simp add: transcribeMeeting_def Let_def bucket_of_def field_simps split: if_splits)
  qed
  with w show ?thesis by blast
qed


lemma transcribeMeeting_valid:
  assumes "\<not> invalid_input input"
  shows "\<exists>r. transcribeMeeting input = Inr r"
proof -
  obtain audio where a: "audio_data input = Some audio"
    using assms by (cases "audio_data input") (simp_all add: invalid_input_def)
  obtain w where w: "workspace_id input = Some w"
    using assms by (cases "workspace_id input") (simp_all add: invalid_input_def)
  from assms a w show ?thesis
    by (simp add: invalid_input_def transcribeMeeting_def decoded_length_def Let_def
        split: prod.splits)
qed

lemma transcribeMeeting_invalid:
  assumes "invalid_input input"
  shows "\<exists>m. transcribeMeeting input = Inl m"
  using assms
  by (auto simp: invalid_input_def transcribeMeeting_def decoded_length_def Let_def
      split: option.splits)

lemma examples_distinct:
  "select_agent_events example_db 1 = [high_priority_event]"
  "select_agent_events example_db 2 = [meeting_event]"
  "select_agent_events example_db 3 = [executed_event]"
  "select_agent_events example_db 4 = [foreign_key_event]"
  "select_agent_events example_db 5 = [urgent_event]"
  "select_agent_events example_db 6 = [plain_event]"
  "select_agent_events example_db 99999 = []"
  by (simp_all add: select_agent_events_def example_db_def example_event_def
      high_priority_event_def meeting_event_def executed_event_def foreign_key_event_def
      urgent_event_def plain_event_def)


section \<open>Properties of the confirmation handler\<close>

text \<open>
  C1. An event that awaits confirmation, with action \<open>create_task\<close> and a valid task
  input (a \<open>workspace_id\<close> of an existing workspace, a title, valid optional fields):
  approving it returns the event with status \<open>executed\<close>, an output with
  \<open>executed_action = task_created\<close> and the id of the new Task as \<open>task_id\<close>, and the
  execution result \<open>{success: true, created_task_id, message}\<close>; the task table gains
  exactly one row, with the title, description and priority of the input and status
  \<open>todo\<close>.
\<close>

theorem agentConfirm_creates_task:
  assumes "select_agent_events d (event_id input) = e # es"
    and "ev_status e = ''awaiting_confirmation''"
    and "ev_action e = ''create_task''"
    and "approved input"
    and "get_prop (ev_input e) ''workspace_id'' = JNum w"
    and "w \<in> set (workspaces d)"
    and "get_prop (ev_input e) ''title'' = JStr title"
    and "valid_optional_fields rt (ev_input e)"
  shows "fst (agentConfirm rt d input) =
           Inr \<lparr>agent_event =
                  e\<lparr>ev_status := ''executed'',
                    ev_output := Some [(''approved'', JBool True),
                                       (''approved_at'', JDate (Some (now rt))),
                                       (''executed_action'', JStr ''task_created''),
                                       (''task_id'', JNum (tasks_id_seq d))]\<rparr>,
                execution_result =
                  Some [(''success'', JBool True),
                        (''created_task_id'', JNum (tasks_id_seq d)),
                        (''message'', JStr ''Task created successfully'')]\<rparr>
         \<and> tasks (snd (agentConfirm rt d input)) =
             tasks d @
               [\<lparr>task_id = tasks_id_seq d, task_workspace_id = w, task_title = title,
                 task_description = expected_description (ev_input e),
                 task_priority = expected_priority (ev_input e),
                 task_due_at = expected_due_at rt (ev_input e), task_status = ''todo''\<rparr>]"
proof -
  have v: "valid_description (ev_input e)" "valid_priority (ev_input e)"
    "valid_due_at rt (ev_input e)"
    using assms(8) by (simp_all add: valid_optional_fields_def)
  note ins = insert_task_valid [OF assms(5-7) v]
  show ?thesis
    by (simp add: approved_insert_success [OF assms(1-4) ins])
qed

theorem agentConfirm_creates_task_witness:
  "fst (agentConfirm example_runtime example_db \<lparr>event_id = 1, approved = True\<rparr>) =
     Inr \<lparr>agent_event =
            high_priority_event
              \<lparr>ev_status := ''executed'',
               ev_output := Some [(''approved'', JBool True),
                                  (''approved_at'', JDate (Some 1700000000000)),
                                  (''executed_action'', JStr ''task_created''),
                                  (''task_id'', JNum 1)]\<rparr>,
          execution_result =
            Some [(''success'', JBool True), (''created_task_id'', JNum 1),
                  (''message'', JStr ''Task created successfully'')]\<rparr>
   \<and> tasks (snd (agentConfirm example_runtime example_db \<lparr>event_id = 1, approved = True\<rparr>)) =
       [\<lparr>task_id = 1, task_workspace_id = 1, task_title = ''Agent Created Task'',
         task_description = Some ''Task created by agent'', task_priority = ''high'',
         task_due_at = None, task_status = ''todo''\<rparr>]"
proof -
  have sel: "select_agent_events example_db (event_id \<lparr>event_id = 1, approved = True\<rparr>)
               = high_priority_event # []"
    by (simp add: examples_distinct)
  have h: "ev_status high_priority_event = ''awaiting_confirmation''"
    "ev_action high_priority_event = ''create_task''"
    "approved \<lparr>event_id = 1, approved = True\<rparr>"
    "get_prop (ev_input high_priority_event) ''workspace_id'' = JNum 1"
    "1 \<in> set (workspaces example_db)"
    "get_prop (ev_input high_priority_event) ''title'' = JStr ''Agent Created Task''"
    "valid_optional_fields example_runtime (ev_input high_priority_event)"
    by (simp_all add: high_priority_event_def example_event_def example_db_def get_prop_def
        valid_optional_fields_def valid_description_def valid_priority_def valid_due_at_def
        is_priority_def)
  show ?thesis
    using agentConfirm_creates_task [OF sel h]
    by (simp add: example_db_def example_runtime_def expected_description_def
        expected_priority_def expected_due_at_def get_prop_def high_priority_event_def
        example_event_def)
qed

text \<open>
  C2. An event that awaits confirmation: rejecting it (\<open>approved = false\<close>) sets the
  rows of that id to status \<open>error\<close> with the output \<open>{rejected: true, rejected_at: now,
  reason: User rejected proposal}\<close>, and returns the updated event with no
  \<open>execution_result\<close> field. Nothing else of the database changes.
\<close>

theorem agentConfirm_rejected:
  assumes "select_agent_events d (event_id input) = e # es"
    and "ev_status e = ''awaiting_confirmation''"
    and "\<not> approved input"
  shows "agentConfirm rt d input =
           (Inr \<lparr>agent_event =
                   e\<lparr>ev_status := ''error'',
                     ev_output := Some [(''rejected'', JBool True),
                                        (''rejected_at'', JDate (Some (now rt))),
                                        (''reason'', JStr ''User rejected proposal'')]\<rparr>,
                 execution_result = None\<rparr>,
            d\<lparr>agent_events :=
                map (set_status_output (event_id input) ''error''
                       [(''rejected'', JBool True),
                        (''rejected_at'', JDate (Some (now rt))),
                        (''reason'', JStr ''User rejected proposal'')])
                  (agent_events d)\<rparr>)"
  using assms by (simp add: agentConfirm_def update_agent_events_found)

theorem agentConfirm_rejected_witness:
  "fst (agentConfirm example_runtime example_db \<lparr>event_id = 1, approved = False\<rparr>) =
     Inr \<lparr>agent_event =
            high_priority_event
              \<lparr>ev_status := ''error'',
               ev_output := Some [(''rejected'', JBool True),
                                  (''rejected_at'', JDate (Some 1700000000000)),
                                  (''reason'', JStr ''User rejected proposal'')]\<rparr>,
          execution_result = None\<rparr>
   \<and> tasks (snd (agentConfirm example_runtime example_db \<lparr>event_id = 1, approved = False\<rparr>)) = []"
proof -
  have sel: "select_agent_events example_db (event_id \<lparr>event_id = 1, approved = False\<rparr>)
               = high_priority_event # []"
    by (simp add: examples_distinct)
  have h: "ev_status high_priority_event = ''awaiting_confirmation''"
    "\<not> approved \<lparr>event_id = 1, approved = False\<rparr>"
    by (simp_all add: high_priority_event_def example_event_def)
  show ?thesis
    using agentConfirm_rejected [OF sel h, where rt = example_runtime]
    by (simp add: example_db_def example_runtime_def)
qed

text \<open>
  C3. An event that awaits confirmation, with action \<open>create_task\<close>, whose insert
  fails with an error (as it does for a \<open>workspace_id\<close> that no workspace has; the
  message is that of the error):
  approving it does not throw. It returns the event, persisted with status \<open>error\<close>
  and an output of \<open>approved\<close>, \<open>approved_at\<close> and \<open>execution_error\<close> (the message),
  and the execution result \<open>{success: false, error: message}\<close>; the task table is as
  it was.
\<close>

theorem agentConfirm_insert_failed:
  assumes "select_agent_events d (event_id input) = e # es"
    and "ev_status e = ''awaiting_confirmation''"
    and "ev_action e = ''create_task''"
    and "approved input"
    and "fst (insert_task d (task_values_of rt (ev_input e))) = Inl error"
    and "message = error_message error"
  shows "agentConfirm rt d input =
           (Inr \<lparr>agent_event =
                   e\<lparr>ev_status := ''error'',
                     ev_output := Some [(''approved'', JBool True),
                                        (''approved_at'', JDate (Some (now rt))),
                                        (''execution_error'', JStr message)]\<rparr>,
                 execution_result =
                   Some [(''success'', JBool False), (''error'', JStr message)]\<rparr>,
            d\<lparr>agent_events :=
                map (set_status_output (event_id input) ''error''
                       [(''approved'', JBool True),
                        (''approved_at'', JDate (Some (now rt))),
                        (''execution_error'', JStr message)])
                  (agent_events d)\<rparr>)
         \<and> tasks (snd (agentConfirm rt d input)) = tasks d"
proof -
  have "snd (insert_task d (task_values_of rt (ev_input e))) = d"
    using assms(5) by (rule insert_task_failure)
  with assms(5) have ins: "insert_task d (task_values_of rt (ev_input e)) = (Inl error, d)"
    by (simp add: prod_eq_iff)
  show ?thesis
    by (simp add: approved_insert_failure [OF assms(1-4) ins assms(6)])
qed

theorem agentConfirm_insert_failed_witness:
  "fst (agentConfirm example_runtime example_db \<lparr>event_id = 4, approved = True\<rparr>) =
     Inr \<lparr>agent_event =
            foreign_key_event
              \<lparr>ev_status := ''error'',
               ev_output :=
                 Some [(''approved'', JBool True),
                       (''approved_at'', JDate (Some 1700000000000)),
                       (''execution_error'',
                        JStr ''insert on table tasks violates foreign key constraint tasks_workspace_id'')]\<rparr>,
          execution_result =
            Some [(''success'', JBool False),
                  (''error'',
                   JStr ''insert on table tasks violates foreign key constraint tasks_workspace_id'')]\<rparr>
   \<and> tasks (snd (agentConfirm example_runtime example_db \<lparr>event_id = 4, approved = True\<rparr>)) = []"
proof -
  have sel: "select_agent_events example_db (event_id \<lparr>event_id = 4, approved = True\<rparr>)
               = foreign_key_event # []"
    by (simp add: examples_distinct)
  have h: "ev_status foreign_key_event = ''awaiting_confirmation''"
    "ev_action foreign_key_event = ''create_task''"
    "approved \<lparr>event_id = 4, approved = True\<rparr>"
    by (simp_all add: foreign_key_event_def example_event_def)
  have f: "fst (insert_task example_db (task_values_of example_runtime (ev_input foreign_key_event)))
             = Inl (JsError ''insert on table tasks violates foreign key constraint tasks_workspace_id'')"
    by (simp add: insert_task_def task_values_of_def foreign_key_event_def example_event_def
        example_db_def get_prop_def)
  have m: "''insert on table tasks violates foreign key constraint tasks_workspace_id''
             = error_message (JsError ''insert on table tasks violates foreign key constraint tasks_workspace_id'')"
    by simp
  show ?thesis
    using agentConfirm_insert_failed [OF sel h f m]
    by (simp add: example_db_def example_runtime_def)
qed

text \<open>
  C4. A call of \<open>agentConfirm\<close> that completes found its event awaiting confirmation
  and leaves it in one terminal status, \<open>executed\<close> or \<open>error\<close>; after it, every
  further call for the same \<open>event_id\<close> (approved or not) throws the error \<open>not
  awaiting confirmation\<close> with that status, and changes nothing in the database.
\<close>

theorem agentConfirm_terminal:
  assumes "agentConfirm rt d input = (Inr r, d')"
  shows "(\<exists>e es. select_agent_events d (event_id input) = e # es
            \<and> ev_status e = ''awaiting_confirmation'')
         \<and> (ev_status (agent_event r) = ''executed'' \<or> ev_status (agent_event r) = ''error'')
         \<and> (\<forall>rt' input'. event_id input' = event_id input \<longrightarrow>
               agentConfirm rt' d' input' =
                 (Inl (''Agent event '' @ show_int (event_id input)
                       @ '' is not awaiting confirmation (current status: ''
                       @ ev_status (agent_event r) @ '')''),
                  d'))"
proof -
  obtain e es st out where sel: "select_agent_events d (event_id input) = e # es"
    and aw: "ev_status e = ''awaiting_confirmation''"
    and st: "st = ''executed'' \<or> st = ''error''"
    and r: "agent_event r = e\<lparr>ev_status := st, ev_output := Some out\<rparr>"
    and d': "agent_events d' = map (set_status_output (event_id input) st out) (agent_events d)"
    using agentConfirm_completed [OF assms] by blast
  have id: "ev_id e = event_id input" using sel by (rule select_ev_id)
  have "select_agent_events d' (event_id input)
          = map (set_status_output (event_id input) st out) (select_agent_events d (event_id input))"
    by (simp add: select_agent_events_def d' filter_map_set_status_output)
  then have sel': "select_agent_events d' (event_id input)
          = e\<lparr>ev_status := st, ev_output := Some out\<rparr> # map (set_status_output (event_id input) st out) es"
    using sel id by (simp add: set_status_output_def)
  have str: "ev_status (agent_event r) = st" using r by simp
  have na: "st \<noteq> ''awaiting_confirmation''" using st by auto
  have again: "agentConfirm rt' d' input' =
                 (Inl (''Agent event '' @ show_int (event_id input)
                       @ '' is not awaiting confirmation (current status: ''
                       @ ev_status (agent_event r) @ '')''), d')"
    if "event_id input' = event_id input" for rt' input'
    using sel' na that str by (simp add: agentConfirm_def)
  from sel aw st str again show ?thesis by blast
qed

theorem agentConfirm_terminal_witness:
  "agentConfirm example_runtime example_db \<lparr>event_id = 2, approved = True\<rparr> =
     (Inr \<lparr>agent_event =
             meeting_event\<lparr>ev_status := ''executed'', ev_output := Some meeting_output\<rparr>,
           execution_result =
             Some [(''success'', JBool True),
                   (''message'', JStr ''Action schedule_meeting executed successfully'')]\<rparr>,
      approved_db)
   \<and> agentConfirm example_runtime approved_db \<lparr>event_id = 2, approved = False\<rparr> =
       (Inl ''Agent event 2 is not awaiting confirmation (current status: executed)'',
        approved_db)"
proof -
  have first: "agentConfirm example_runtime example_db \<lparr>event_id = 2, approved = True\<rparr> =
     (Inr \<lparr>agent_event =
             meeting_event\<lparr>ev_status := ''executed'', ev_output := Some meeting_output\<rparr>,
           execution_result =
             Some [(''success'', JBool True),
                   (''message'', JStr ''Action schedule_meeting executed successfully'')]\<rparr>,
      approved_db)"
    by (simp add: agentConfirm_def select_agent_events_def execute_action_def get_prop_def
        update_agent_events_def set_status_output_def Let_def approved_db_def meeting_output_def
        example_db_def example_runtime_def example_event_def
        high_priority_event_def meeting_event_def executed_event_def foreign_key_event_def
        urgent_event_def plain_event_def)
  have "agentConfirm example_runtime approved_db \<lparr>event_id = 2, approved = False\<rparr> =
       (Inl (''Agent event '' @ show_int 2
             @ '' is not awaiting confirmation (current status: ''
             @ ''executed'' @ '')''),
        approved_db)"
    using agentConfirm_terminal [OF first] by simp
  with first show ?thesis
    by (simp add: show_int_def show_nat.simps digit_char_def)
qed

text \<open>
  C5. For an \<open>event_id\<close> that matches no row of the agent event table, \<open>agentConfirm\<close>
  (approved or not) throws the error \<open>Agent event with id <id> not found\<close>, the id
  written in decimal, and leaves the database as it was.
\<close>

theorem agentConfirm_not_found:
  assumes "select_agent_events d (event_id input) = []"
  shows "agentConfirm rt d input =
           (Inl (''Agent event with id '' @ show_int (event_id input) @ '' not found''), d)"
  using assms by (simp add: agentConfirm_def)

theorem agentConfirm_not_found_witness:
  "agentConfirm example_runtime example_db \<lparr>event_id = 99999, approved = True\<rparr>
     = (Inl ''Agent event with id 99999 not found'', example_db)"
proof -
  have sel: "select_agent_events example_db (event_id \<lparr>event_id = 99999, approved = True\<rparr>) = []"
    by (simp add: examples_distinct)
  show ?thesis
    using agentConfirm_not_found [OF sel, where rt = example_runtime]
    by (simp add: show_int_def show_nat.simps digit_char_def)
qed

text \<open>
  C6. For an existing event whose status is not \<open>awaiting_confirmation\<close>,
  \<open>agentConfirm\<close> (approved or not) throws the error \<open>Agent event <id> is not awaiting
  confirmation (current status: <status>)\<close>, and leaves the database, so the status and
  the output of the event, as it was.
\<close>

theorem agentConfirm_not_awaiting:
  assumes "select_agent_events d (event_id input) = e # es"
    and "ev_status e \<noteq> ''awaiting_confirmation''"
  shows "agentConfirm rt d input =
           (Inl (''Agent event '' @ show_int (event_id input)
                 @ '' is not awaiting confirmation (current status: '' @ ev_status e @ '')''),
            d)"
  using assms by (simp add: agentConfirm_def)

theorem agentConfirm_not_awaiting_witness:
  "agentConfirm example_runtime example_db \<lparr>event_id = 3, approved = True\<rparr>
     = (Inl ''Agent event 3 is not awaiting confirmation (current status: executed)'',
        example_db)"
proof -
  have sel: "select_agent_events example_db (event_id \<lparr>event_id = 3, approved = True\<rparr>)
               = executed_event # []"
    by (simp add: examples_distinct)
  have h: "ev_status executed_event \<noteq> ''awaiting_confirmation''"
    by (simp add: executed_event_def example_event_def)
  show ?thesis
    using agentConfirm_not_awaiting [OF sel h, where rt = example_runtime]
    by (simp add: show_int_def show_nat.simps digit_char_def executed_event_def
        example_event_def)
qed

text \<open>
  C7. An event that awaits confirmation, with an action other than \<open>create_task\<close>:
  approving it writes status \<open>executed\<close> and the output (with \<open>executed_action\<close> the
  action of the event) to the rows of that id and changes nothing else in the
  database; the execution result is \<open>{success: true, message: Action <action> executed
  successfully}\<close>.
\<close>

theorem agentConfirm_other_action:
  assumes "select_agent_events d (event_id input) = e # es"
    and "ev_status e = ''awaiting_confirmation''"
    and "ev_action e \<noteq> ''create_task''"
    and "approved input"
  shows "agentConfirm rt d input =
           (Inr \<lparr>agent_event =
                   e\<lparr>ev_status := ''executed'',
                     ev_output := Some [(''approved'', JBool True),
                                        (''approved_at'', JDate (Some (now rt))),
                                        (''executed_action'', JStr (ev_action e))]\<rparr>,
                 execution_result =
                   Some [(''success'', JBool True),
                         (''message'', JStr (''Action '' @ ev_action e @ '' executed successfully''))]\<rparr>,
            d\<lparr>agent_events :=
                map (set_status_output (event_id input) ''executed''
                       [(''approved'', JBool True),
                        (''approved_at'', JDate (Some (now rt))),
                        (''executed_action'', JStr (ev_action e))])
                  (agent_events d)\<rparr>)"
  using assms
  by (simp add: agentConfirm_def execute_action_def get_prop_def
      update_agent_events_found [OF assms(1)])

theorem agentConfirm_other_action_witness:
  "fst (agentConfirm example_runtime example_db \<lparr>event_id = 2, approved = True\<rparr>) =
     Inr \<lparr>agent_event =
            meeting_event
              \<lparr>ev_status := ''executed'',
               ev_output := Some [(''approved'', JBool True),
                                  (''approved_at'', JDate (Some 1700000000000)),
                                  (''executed_action'', JStr ''schedule_meeting'')]\<rparr>,
          execution_result =
            Some [(''success'', JBool True),
                  (''message'', JStr ''Action schedule_meeting executed successfully'')]\<rparr>
   \<and> tasks (snd (agentConfirm example_runtime example_db \<lparr>event_id = 2, approved = True\<rparr>)) = []"
proof -
  have sel: "select_agent_events example_db (event_id \<lparr>event_id = 2, approved = True\<rparr>)
               = meeting_event # []"
    by (simp add: examples_distinct)
  have h: "ev_status meeting_event = ''awaiting_confirmation''"
    "ev_action meeting_event \<noteq> ''create_task''"
    "approved \<lparr>event_id = 2, approved = True\<rparr>"
    by (simp_all add: meeting_event_def example_event_def)
  show ?thesis
    using agentConfirm_other_action [OF sel h, where rt = example_runtime]
    by (simp add: example_db_def example_runtime_def meeting_event_def example_event_def)
qed


text \<open>
  C8, as the handler has it. An event that awaits confirmation, with action
  \<open>create_task\<close> and an input that is valid but for its priority: when the input has
  no priority (none at all, or \<open>null\<close>, or another value the handler takes for none),
  approving it ends with status \<open>executed\<close> and inserts the Task with priority
  \<open>med\<close>. A priority that is given and is none of \<open>low\<close>, \<open>med\<close>, \<open>high\<close> is not
  replaced by the default: the insert gets it as it is and fails, the call ends with
  status \<open>error\<close>, and no Task is inserted.
\<close>

theorem agentConfirm_priority_default:
  assumes "select_agent_events d (event_id input) = e # es"
    and "ev_status e = ''awaiting_confirmation''"
    and "ev_action e = ''create_task''"
    and "approved input"
    and "get_prop (ev_input e) ''workspace_id'' = JNum w"
    and "w \<in> set (workspaces d)"
    and "get_prop (ev_input e) ''title'' = JStr title"
    and "valid_description (ev_input e)"
    and "valid_due_at rt (ev_input e)"
  shows "(\<not> truthy (get_prop (ev_input e) ''priority'') \<longrightarrow>
            (\<exists>r. fst (agentConfirm rt d input) = Inr r
                 \<and> ev_status (agent_event r) = ''executed'')
            \<and> tasks (snd (agentConfirm rt d input)) =
                tasks d @
                  [\<lparr>task_id = tasks_id_seq d, task_workspace_id = w, task_title = title,
                    task_description = expected_description (ev_input e),
                    task_priority = ''med'',
                    task_due_at = expected_due_at rt (ev_input e), task_status = ''todo''\<rparr>])
         \<and> (truthy (get_prop (ev_input e) ''priority'')
              \<and> \<not> is_priority (get_prop (ev_input e) ''priority'') \<longrightarrow>
            (\<exists>r. fst (agentConfirm rt d input) = Inr r
                 \<and> ev_status (agent_event r) = ''error'')
            \<and> tasks (snd (agentConfirm rt d input)) = tasks d)"
proof (intro conjI impI)
  assume none: "\<not> truthy (get_prop (ev_input e) ''priority'')"
  then have v: "valid_priority (ev_input e)"
    by (simp add: valid_priority_def)
  have med: "expected_priority (ev_input e) = ''med''"
    using none by (cases "get_prop (ev_input e) ''priority''") (simp_all add: expected_priority_def)
  note ins = insert_task_valid [OF assms(5-8) v assms(9)]
  note res = approved_insert_success [OF assms(1-4) ins]
  show "\<exists>r. fst (agentConfirm rt d input) = Inr r \<and> ev_status (agent_event r) = ''executed''"
    by (simp add: res)
  show "tasks (snd (agentConfirm rt d input)) =
          tasks d @
            [\<lparr>task_id = tasks_id_seq d, task_workspace_id = w, task_title = title,
              task_description = expected_description (ev_input e),
              task_priority = ''med'',
              task_due_at = expected_due_at rt (ev_input e), task_status = ''todo''\<rparr>]"
    by (simp add: res med)
next
  assume bad: "truthy (get_prop (ev_input e) ''priority'')
                 \<and> \<not> is_priority (get_prop (ev_input e) ''priority'')"
  then have t: "truthy (get_prop (ev_input e) ''priority'')"
    and n: "\<not> is_priority (get_prop (ev_input e) ''priority'')"
    by simp_all
  note ins = insert_task_invalid_priority [OF assms(5-8) t n, of rt]
  note res = approved_insert_failure [OF assms(1-4) ins refl]
  show "\<exists>r. fst (agentConfirm rt d input) = Inr r \<and> ev_status (agent_event r) = ''error''"
    by (simp add: res)
  show "tasks (snd (agentConfirm rt d input)) = tasks d"
    by (simp add: res)
qed

theorem agentConfirm_priority_default_witness:
  "get_prop (ev_input plain_event) ''priority'' = JUndefined
   \<and> (\<exists>r. fst (agentConfirm example_runtime example_db \<lparr>event_id = 6, approved = True\<rparr>) = Inr r
          \<and> ev_status (agent_event r) = ''executed'')
   \<and> tasks (snd (agentConfirm example_runtime example_db \<lparr>event_id = 6, approved = True\<rparr>)) =
       [\<lparr>task_id = 1, task_workspace_id = 1, task_title = ''Plain Task'',
         task_description = None, task_priority = ''med'', task_due_at = None,
         task_status = ''todo''\<rparr>]"
proof -
  have sel: "select_agent_events example_db (event_id \<lparr>event_id = 6, approved = True\<rparr>)
               = plain_event # []"
    by (simp add: examples_distinct)
  have h: "ev_status plain_event = ''awaiting_confirmation''"
    "ev_action plain_event = ''create_task''"
    "approved \<lparr>event_id = 6, approved = True\<rparr>"
    "get_prop (ev_input plain_event) ''workspace_id'' = JNum 1"
    "1 \<in> set (workspaces example_db)"
    "get_prop (ev_input plain_event) ''title'' = JStr ''Plain Task''"
    "valid_description (ev_input plain_event)"
    "valid_due_at example_runtime (ev_input plain_event)"
    by (simp_all add: plain_event_def example_event_def example_db_def get_prop_def
        valid_description_def valid_due_at_def)
  have p: "get_prop (ev_input plain_event) ''priority'' = JUndefined"
    by (simp add: plain_event_def example_event_def get_prop_def)
  show ?thesis
    using agentConfirm_priority_default [OF sel h] p
    by (simp add: example_db_def expected_description_def expected_due_at_def get_prop_def
        plain_event_def example_event_def)
qed

text \<open>
  The priority \<open>urgent\<close> is none of the three, and it is not replaced by \<open>med\<close>:
  approving the event ends with status \<open>error\<close> and an empty task table.
\<close>

theorem agentConfirm_priority_counterexample:
  "get_prop (ev_input urgent_event) ''priority'' = JStr ''urgent''
   \<and> fst (agentConfirm example_runtime example_db \<lparr>event_id = 5, approved = True\<rparr>) =
       Inr \<lparr>agent_event =
              urgent_event
                \<lparr>ev_status := ''error'',
                 ev_output :=
                   Some [(''approved'', JBool True),
                         (''approved_at'', JDate (Some 1700000000000)),
                         (''execution_error'', JStr ''invalid input value for enum task_priority'')]\<rparr>,
            execution_result =
              Some [(''success'', JBool False),
                    (''error'', JStr ''invalid input value for enum task_priority'')]\<rparr>
   \<and> tasks (snd (agentConfirm example_runtime example_db \<lparr>event_id = 5, approved = True\<rparr>)) = []"
  by (simp add: agentConfirm_def select_agent_events_def execute_action_def get_prop_def
      update_agent_events_def set_status_output_def Let_def insert_task_def task_values_of_def
      js_or_def example_db_def example_runtime_def example_event_def
      high_priority_event_def meeting_event_def executed_event_def foreign_key_event_def
      urgent_event_def plain_event_def)

section \<open>Properties of the transcription handler\<close>

text \<open>
  C9. The result of \<open>transcribeMeeting\<close> depends on the audio only through the size
  bucket of its decoded length: two valid inputs with the same \<open>workspace_id\<close> and
  decoded lengths in the same bucket (below 1 KB, from 1 KB to below 10 KB, from 10 KB)
  get the same response. The transcript is \<open>[Workspace <workspace_id>]\<close>, a space and
  the text of the bucket, and \<open>is_complete\<close> holds exactly when the decoded audio has
  at least 10 KB.
\<close>

theorem transcribeMeeting_bucket:
  assumes "\<not> invalid_input i1" and "\<not> invalid_input i2"
    and "workspace_id i1 = workspace_id i2"
    and "bucket_of (decoded_length i1) = bucket_of (decoded_length i2)"
  shows "transcribeMeeting i1 = transcribeMeeting i2
         \<and> (\<exists>w. workspace_id i1 = Some w
               \<and> transcribeMeeting i1 =
                   Inr \<lparr>partial_transcript =
                          ''[Workspace '' @ show_int w @ ''] ''
                            @ bucket_text (bucket_of (decoded_length i1)),
                        is_complete = (10 * 1024 \<le> decoded_length i1)\<rparr>)"
proof -
  obtain r1 where r1: "transcribeMeeting i1 = Inr r1"
    using transcribeMeeting_valid [OF assms(1)] by blast
  obtain r2 where r2: "transcribeMeeting i2 = Inr r2"
    using transcribeMeeting_valid [OF assms(2)] by blast
  obtain w1 where w1: "workspace_id i1 = Some w1"
    and e1: "r1 = \<lparr>partial_transcript =
                     ''[Workspace '' @ show_int w1 @ ''] ''
                       @ bucket_text (bucket_of (decoded_length i1)),
                   is_complete = (10 * 1024 \<le> decoded_length i1)\<rparr>"
    using transcribeMeeting_returns [OF r1] by blast
  obtain w2 where w2: "workspace_id i2 = Some w2"
    and e2: "r2 = \<lparr>partial_transcript =
                     ''[Workspace '' @ show_int w2 @ ''] ''
                       @ bucket_text (bucket_of (decoded_length i2)),
                   is_complete = (10 * 1024 \<le> decoded_length i2)\<rparr>"
    using transcribeMeeting_returns [OF r2] by blast
  have w: "w1 = w2" using assms(3) w1 w2 by simp
  have c: "(10 * 1024 \<le> decoded_length i1) = (10 * 1024 \<le> decoded_length i2)"
    using assms(4) by (simp add: bucket_of_def split: if_splits)
  have "r1 = r2" using e1 e2 w c assms(4) by simp
  with r1 r2 w1 e1 show ?thesis by simp
qed

theorem transcribeMeeting_bucket_witness:
  "\<not> invalid_input example_audio_1 \<and> \<not> invalid_input example_audio_2
   \<and> audio_data example_audio_1 \<noteq> audio_data example_audio_2
   \<and> transcribeMeeting example_audio_1 = transcribeMeeting example_audio_2
   \<and> transcribeMeeting example_audio_1 =
       Inr \<lparr>partial_transcript =
              ''[Workspace 7] Welcome to the meeting, today we will discuss...'',
            is_complete = False\<rparr>"
proof -
  have len: "decoded_length example_audio_1 = 12" "decoded_length example_audio_2 = 12"
    by (simp_all add: decoded_length_def example_audio_1_def example_audio_2_def
        Buffer_from_base64_length_def is_base64_char_def)
  have v: "\<not> invalid_input example_audio_1" "\<not> invalid_input example_audio_2"
    by (simp_all add: invalid_input_def decoded_length_def example_audio_1_def
        example_audio_2_def Buffer_from_base64_length_def base64Regex_test_def
        is_base64_char_def)
  have h: "workspace_id example_audio_1 = workspace_id example_audio_2"
    "bucket_of (decoded_length example_audio_1) = bucket_of (decoded_length example_audio_2)"
    by (simp_all add: len) (simp add: example_audio_1_def example_audio_2_def)
  have d: "audio_data example_audio_1 \<noteq> audio_data example_audio_2"
    by (simp add: example_audio_1_def example_audio_2_def)
  have w: "workspace_id example_audio_1 = Some 7"
    by (simp add: example_audio_1_def)
  note c = transcribeMeeting_bucket [OF v h]
  from c have t: "transcribeMeeting example_audio_1 = transcribeMeeting example_audio_2"
    by (rule conjunct1)
  from c obtain w' where w': "workspace_id example_audio_1 = Some w'"
    and r0: "transcribeMeeting example_audio_1 =
               Inr \<lparr>partial_transcript =
                      ''[Workspace '' @ show_int w' @ ''] ''
                        @ bucket_text (bucket_of (decoded_length example_audio_1)),
                    is_complete = (10 * 1024 \<le> decoded_length example_audio_1)\<rparr>"
    by blast
  have "w' = 7" using w w' by simp
  with r0 have r: "transcribeMeeting example_audio_1 =
              Inr \<lparr>partial_transcript =
                     ''[Workspace 7] Welcome to the meeting, today we will discuss...'',
                   is_complete = False\<rparr>"
    by (simp add: len bucket_of_def show_int_def show_nat.simps digit_char_def)
  from v d t r show ?thesis by (intro conjI)
qed

text \<open>
  C10. \<open>transcribeMeeting\<close> throws exactly for the invalid inputs: audio data that is
  missing, empty or not of the base64 pattern, a workspace id that is missing or not
  positive, decoded audio of fewer than 10 bytes or of more than 50 * 1024 * 1024 bytes.
  For every other input it returns a response.
\<close>

theorem transcribeMeeting_throws_iff:
  "((\<exists>m. transcribeMeeting input = Inl m) \<longleftrightarrow> invalid_input input)
   \<and> ((\<exists>r. transcribeMeeting input = Inr r) \<longleftrightarrow> \<not> invalid_input input)"
proof (cases "invalid_input input")
  case True
  then obtain m where "transcribeMeeting input = Inl m"
    using transcribeMeeting_invalid by blast
  with True show ?thesis by simp
next
  case False
  then obtain r where "transcribeMeeting input = Inr r"
    using transcribeMeeting_valid by blast
  with False show ?thesis by simp
qed

theorem transcribeMeeting_throws_iff_witness:
  "\<not> invalid_input example_audio_1
   \<and> (\<exists>r. transcribeMeeting example_audio_1 = Inr r)
   \<and> invalid_input \<lparr>audio_data = Some ''QUJD'', workspace_id = Some 7\<rparr>
   \<and> transcribeMeeting \<lparr>audio_data = Some ''QUJD'', workspace_id = Some 7\<rparr>
       = Inl ''Audio data too small''
   \<and> invalid_input \<lparr>audio_data = Some ''QUJDREVGR0hJSktM'', workspace_id = Some 0\<rparr>
   \<and> invalid_input \<lparr>audio_data = Some ''QUJDREVGR0hJ*0tM'', workspace_id = Some 7\<rparr>"
proof -
  have v: "\<not> invalid_input example_audio_1"
    by (simp add: invalid_input_def decoded_length_def example_audio_1_def
        Buffer_from_base64_length_def base64Regex_test_def is_base64_char_def)
  have s: "transcribeMeeting \<lparr>audio_data = Some ''QUJD'', workspace_id = Some 7\<rparr>
             = Inl ''Audio data too small''"
    by (simp add: transcribeMeeting_def Buffer_from_base64_length_def base64Regex_test_def
        is_base64_char_def)
  have i: "invalid_input \<lparr>audio_data = Some ''QUJDREVGR0hJSktM'', workspace_id = Some 0\<rparr>"
    "invalid_input \<lparr>audio_data = Some ''QUJDREVGR0hJ*0tM'', workspace_id = Some 7\<rparr>"
    by (simp_all add: invalid_input_def base64Regex_test_def is_base64_char_def)
  show ?thesis
    using transcribeMeeting_throws_iff [of example_audio_1]
      transcribeMeeting_throws_iff [of "\<lparr>audio_data = Some ''QUJD'', workspace_id = Some 7\<rparr>"]
      v s i
    by simp
qed

end
